theory Spec2Isabelle
  imports Main "HOL-Library.Word" "HOL-Library.Sublist"
begin

unbundle bit_operations_syntax

section \<open>The Trivy scanner Lambda handler (trivy\_lambda\_setup/lambda\_handler.py)\<close>

text \<open>
  The handler receives a JSON event, runs the scanner as a subprocess, reshapes the
  scanner's JSON output and answers with a response envelope. Everything the handler
  touches is a Python value that came out of a JSON decoder (or a literal of the source),
  so Python values are modelled by the JSON document type below. Exceptions are values:
  a fallible operation returns \<open>exn + 'a\<close>, with \<open>Inl\<close> for the raised exception.
\<close>

subsection \<open>Python values\<close>

text \<open>
  \<open>JInt\<close> is Python's unbounded \<open>int\<close>; \<open>JFloat\<close> holds the 64 bits of a Python
  \<open>float\<close> (only its truth value is ever inspected). \<open>JObj\<close> is a \<open>dict\<close> with string
  keys, as an association list in which the first entry of a key is the one that counts.
  Strings are lists of 8-bit characters.
\<close>

datatype json =
    JNull
  | JBool bool
  | JInt int
  | JFloat "64 word"
  | JStr string
  | JArr "json list"
  | JObj "(string \<times> json) list"

datatype exn =
    TimeoutExpired
  | AttributeError
  | TypeError
  | KeyError
  | JSONDecodeError
  | OSError
  | UnboundLocalError

definition then_do :: "exn + 'a \<Rightarrow> ('a \<Rightarrow> exn + 'b) \<Rightarrow> exn + 'b" where
  \<comment> \<open>sequencing: an exception raised by the first step skips the rest\<close>
  "then_do m f = (case m of Inl e \<Rightarrow> Inl e | Inr x \<Rightarrow> f x)"

fun py_get :: "json \<Rightarrow> string \<Rightarrow> json \<Rightarrow> exn + json" where
  \<comment> \<open>\<open>d.get(k, default)\<close>: only a dict has the method\<close>
  "py_get (JObj kvs) k d = Inr (case map_of kvs k of None \<Rightarrow> d | Some v \<Rightarrow> v)"
| "py_get _ k d = Inl AttributeError"

fun py_subscript :: "json \<Rightarrow> string \<Rightarrow> exn + json" where
  \<comment> \<open>\<open>d[k]\<close> with a string key\<close>
  "py_subscript (JObj kvs) k = (case map_of kvs k of None \<Rightarrow> Inl KeyError | Some v \<Rightarrow> Inr v)"
| "py_subscript _ k = Inl TypeError"

fun is_substring :: "string \<Rightarrow> string \<Rightarrow> bool" where
  "is_substring p [] = (p = [])"
| "is_substring p (c # cs) = (prefix p (c # cs) \<or> is_substring p cs)"

fun py_in :: "string \<Rightarrow> json \<Rightarrow> exn + bool" where
  \<comment> \<open>\<open>k in x\<close> for a string \<open>k\<close>: key of a dict, element of a list, substring of a string\<close>
  "py_in k (JObj kvs) = Inr (map_of kvs k \<noteq> None)"
| "py_in k (JArr xs) = Inr (JStr k \<in> set xs)"
| "py_in k (JStr s) = Inr (is_substring k s)"
| "py_in k _ = Inl TypeError"

fun py_iter :: "json \<Rightarrow> exn + json list" where
  \<comment> \<open>the elements a \<open>for\<close> loop visits\<close>
  "py_iter (JArr xs) = Inr xs"
| "py_iter (JStr s) = Inr (map (\<lambda>c. JStr [c]) s)"
| "py_iter (JObj kvs) = Inr (map JStr (remdups (map fst kvs)))"
| "py_iter _ = Inl TypeError"

fun py_slice :: "json \<Rightarrow> nat \<Rightarrow> exn + json" where
  \<comment> \<open>\<open>x[:n]\<close>\<close>
  "py_slice (JStr s) n = Inr (JStr (take n s))"
| "py_slice (JArr xs) n = Inr (JArr (take n xs))"
| "py_slice _ n = Inl TypeError"

fun py_truthy :: "json \<Rightarrow> bool" where
  "py_truthy JNull = False"
| "py_truthy (JBool b) = b"
| "py_truthy (JInt i) = (i \<noteq> 0)"
| "py_truthy (JFloat w) = (w \<noteq> 0 \<and> w \<noteq> 0x8000000000000000)"
| "py_truthy (JStr s) = (s \<noteq> [])"
| "py_truthy (JArr xs) = (xs \<noteq> [])"
| "py_truthy (JObj kvs) = (kvs \<noteq> [])"

text \<open>
  \<open>json.dumps\<close>, called with \<open>allow_nan\<close> left at its default, writes the floats that are
  not finite (exponent bits all ones) as the bare tokens \<open>NaN\<close>, \<open>Infinity\<close> and
  \<open>-Infinity\<close>, which JSON does not have; every other value of the type is written as JSON
  text. \<open>dumps_is_json x\<close> says that the text \<open>json.dumps(x)\<close> is JSON.
\<close>

definition float_is_finite :: "64 word \<Rightarrow> bool" where
  "float_is_finite w = (w AND 0x7FF0000000000000 \<noteq> 0x7FF0000000000000)"

fun dumps_is_json :: "json \<Rightarrow> bool" where
  "dumps_is_json (JFloat w) = float_is_finite w"
| "dumps_is_json (JArr xs) = (\<forall>x \<in> set xs. dumps_is_json x)"
| "dumps_is_json (JObj kvs) = (\<forall>kv \<in> set kvs. dumps_is_json (snd kv))"
| "dumps_is_json _ = True"

definition is_space :: "char \<Rightarrow> bool" where
  \<comment> \<open>\<open>str.isspace\<close> on the characters below 256\<close>
  "is_space c = (let n = (of_char c :: nat) in
                   (9 \<le> n \<and> n \<le> 13) \<or> (28 \<le> n \<and> n \<le> 32) \<or> n = 133 \<or> n = 160)"

definition py_strip :: "string \<Rightarrow> string" where
  "py_strip s = rev (dropWhile is_space (rev (dropWhile is_space s)))"

definition first_line :: "string \<Rightarrow> string" where
  \<comment> \<open>\<open>s.split('\n')[0]\<close>\<close>
  "first_line s = takeWhile (\<lambda>c. c \<noteq> CHR 0x0A) s"

subsection \<open>The outside world\<close>

text \<open>
  What the handler gets from outside: the JSON decoder (\<open>None\<close> when \<open>json.loads\<close>
  raises), the result of running the scan with a given argument vector, the result of
  the version query, the clock, and the text \<open>str(e)\<close> of an exception.
\<close>

datatype run_result =
    Completed int string string  \<comment> \<open>returncode, stdout, stderr\<close>
  | RunTimeout                   \<comment> \<open>\<open>subprocess.TimeoutExpired\<close>\<close>
  | RunFailed                    \<comment> \<open>the process could not be run or its output not decoded\<close>

record world =
  json_loads :: "string \<Rightarrow> json option"
  scan_run :: "string list \<Rightarrow> run_result"
  version_run :: run_result
  now_isoformat :: string
  exn_str :: "exn \<Rightarrow> string"

definition py_json_loads :: "world \<Rightarrow> json \<Rightarrow> exn + json" where
  "py_json_loads w x =
     (case x of
        JStr s \<Rightarrow> (case json_loads w s of None \<Rightarrow> Inl JSONDecodeError | Some j \<Rightarrow> Inr j)
      | _ \<Rightarrow> Inl TypeError)"

fun argv_of :: "json list \<Rightarrow> exn + string list" where
  \<comment> \<open>\<open>subprocess.run\<close> accepts string arguments only\<close>
  "argv_of [] = Inr []"
| "argv_of (JStr s # xs) = then_do (argv_of xs) (\<lambda>ss. Inr (s # ss))"
| "argv_of (_ # xs) = Inl TypeError"

definition subprocess_run :: "world \<Rightarrow> json list \<Rightarrow> exn + (int \<times> string \<times> string)" where
  "subprocess_run w cmd =
     then_do (argv_of cmd) (\<lambda>args.
       case scan_run w args of
         Completed rc out err \<Rightarrow> Inr (rc, out, err)
       | RunTimeout \<Rightarrow> Inl TimeoutExpired
       | RunFailed \<Rightarrow> Inl OSError)"

subsection \<open>extract\_cvss\_score and get\_trivy\_version\<close>

fun cvss_sources :: "json \<Rightarrow> string list \<Rightarrow> exn + json" where
  \<comment> \<open>the loop over the sources\<close>
  "cvss_sources cvss [] = Inr (JInt 0)"
| "cvss_sources cvss (source # rest) =
     then_do (py_in source cvss) (\<lambda>found.
       if found then
         then_do (py_subscript cvss source) (\<lambda>entry.
         then_do (py_get entry ''V2Score'' (JInt 0)) (\<lambda>v2.
           py_get entry ''V3Score'' v2))
       else cvss_sources cvss rest)"

definition extract_cvss_score :: "json \<Rightarrow> exn + json" where
  "extract_cvss_score vuln =
     then_do (py_get vuln ''CVSS'' (JObj [])) (\<lambda>cvss.
       cvss_sources cvss [''nvd'', ''redhat'', ''ghsa''])"

definition get_trivy_version :: "world \<Rightarrow> string" where
  "get_trivy_version w =
     (case version_run w of
        Completed rc out err \<Rightarrow> first_line (py_strip out)
      | RunTimeout \<Rightarrow> ''Unknown''
      | RunFailed \<Rightarrow> ''Unknown'')"

subsection \<open>The handler\<close>

record finding =
  cve_id :: json
  package :: json
  installed_version :: json
  fixed_version :: json
  severity :: json
  cvss_score :: json
  description :: json
  layer :: json
  references :: json

record summary =
  total_count :: int
  critical :: int
  high :: int
  medium :: int
  low :: int

record response =
  statusCode :: int
  headers :: "(string \<times> string) list"
  body :: json  \<comment> \<open>the document handed to \<open>json.dumps\<close>\<close>

definition cors_headers :: "(string \<times> string) list" where
  "cors_headers = [(''Content-Type'', ''application/json''),
                   (''Access-Control-Allow-Origin'', ''*'')]"

definition request_body :: "world \<Rightarrow> json \<Rightarrow> exn + json" where
  \<comment> \<open>the assignment to \<open>body\<close>\<close>
  "request_body w event =
     then_do (py_get event ''body'' JNull) (\<lambda>b.
       case b of
         JStr s \<Rightarrow> then_do (py_subscript event ''body'') (py_json_loads w)
       | _ \<Rightarrow> then_do (py_get event ''body'' (JObj []))
                (\<lambda>x. Inr (if py_truthy x then x else JObj [])))"

record scan_args =
  image_ref :: json
  severity_filter :: json
  ignore_unfixed :: json

definition read_request :: "json \<Rightarrow> exn + scan_args" where
  "read_request req =
     then_do (py_get req ''image'' (JStr ''nginx:latest'')) (\<lambda>i.
     then_do (py_get req ''severity'' (JStr ''CRITICAL,HIGH,MEDIUM,LOW'')) (\<lambda>s.
     then_do (py_get req ''ignore_unfixed'' (JBool False)) (\<lambda>u.
       Inr \<lparr>image_ref = i, severity_filter = s, ignore_unfixed = u\<rparr>)))"

definition build_cmd :: "scan_args \<Rightarrow> json list" where
  "build_cmd r =
     [JStr ''/usr/local/bin/trivy'', JStr ''image'', JStr ''--format'', JStr ''json'',
      JStr ''--quiet'', JStr ''--severity'', severity_filter r,
      JStr ''--cache-dir'', JStr ''/tmp/trivy-cache'']
     @ (if py_truthy (ignore_unfixed r) then [JStr ''--ignore-unfixed''] else [])
     @ [image_ref r]"

definition normalize_vuln :: "json \<Rightarrow> json \<Rightarrow> exn + finding" where
  \<comment> \<open>the dict appended for one \<open>vuln\<close> of one \<open>target\<close>\<close>
  "normalize_vuln target vuln =
     then_do (py_get vuln ''VulnerabilityID'' (JStr ''N/A'')) (\<lambda>c.
     then_do (py_get vuln ''PkgName'' (JStr ''Unknown'')) (\<lambda>p.
     then_do (py_get vuln ''InstalledVersion'' (JStr ''Unknown'')) (\<lambda>i.
     then_do (py_get vuln ''FixedVersion'' (JStr ''No fix available'')) (\<lambda>f.
     then_do (py_get vuln ''Severity'' (JStr ''UNKNOWN'')) (\<lambda>s.
     then_do (extract_cvss_score vuln) (\<lambda>score.
     then_do (then_do (py_get vuln ''Description'' (JStr '''')) (\<lambda>d. py_slice d 500)) (\<lambda>d.
     then_do (py_get target ''Target'' (JStr ''Unknown'')) (\<lambda>l.
     then_do (then_do (py_get vuln ''References'' (JArr [])) (\<lambda>r. py_slice r 3)) (\<lambda>r.
       Inr \<lparr>cve_id = c, package = p, installed_version = i, fixed_version = f,
            severity = s, cvss_score = score, description = d, layer = l,
            references = r\<rparr>)))))))))"

fun each_vuln :: "json \<Rightarrow> json list \<Rightarrow> exn + finding list" where
  \<comment> \<open>the inner loop\<close>
  "each_vuln target [] = Inr []"
| "each_vuln target (vuln # vulns) =
     then_do (normalize_vuln target vuln) (\<lambda>f.
     then_do (each_vuln target vulns) (\<lambda>fs. Inr (f # fs)))"

fun each_target :: "json list \<Rightarrow> exn + finding list" where
  \<comment> \<open>the outer loop\<close>
  "each_target [] = Inr []"
| "each_target (target # targets) =
     then_do (py_get target ''Vulnerabilities'' (JArr [])) (\<lambda>vs.
     then_do (py_iter vs) (\<lambda>vulns.
     then_do (each_vuln target vulns) (\<lambda>fs.
     then_do (each_target targets) (\<lambda>rest. Inr (fs @ rest)))))"

definition transform :: "json \<Rightarrow> exn + finding list" where
  "transform trivy_output =
     then_do (py_get trivy_output ''Results'' (JArr [])) (\<lambda>rs.
     then_do (py_iter rs) each_target)"

definition count_severity :: "string \<Rightarrow> finding list \<Rightarrow> int" where
  \<comment> \<open>\<open>sum(1 for v in vulnerabilities if v['severity'] == label)\<close>\<close>
  "count_severity label vs = sum_list (map (\<lambda>v. 1) (filter (\<lambda>v. severity v = JStr label) vs))"

definition summarize :: "finding list \<Rightarrow> summary" where
  "summarize vs =
     \<lparr>total_count = int (length vs),
      critical = count_severity ''CRITICAL'' vs,
      high = count_severity ''HIGH'' vs,
      medium = count_severity ''MEDIUM'' vs,
      low = count_severity ''LOW'' vs\<rparr>"

definition finding_json :: "finding \<Rightarrow> json" where
  "finding_json v =
     JObj [(''cve_id'', cve_id v), (''package'', package v),
           (''installed_version'', installed_version v),
           (''fixed_version'', fixed_version v), (''severity'', severity v),
           (''cvss_score'', cvss_score v), (''description'', description v),
           (''layer'', layer v), (''references'', references v)]"

definition summary_json :: "summary \<Rightarrow> json" where
  "summary_json s =
     JObj [(''total'', JInt (total_count s)), (''critical'', JInt (critical s)),
           (''high'', JInt (high s)), (''medium'', JInt (medium s)),
           (''low'', JInt (low s))]"

definition report :: "world \<Rightarrow> json \<Rightarrow> finding list \<Rightarrow> json" where
  \<comment> \<open>the \<open>response\<close> dict of the success path\<close>
  "report w img vs =
     JObj [(''scanner'', JStr ''Trivy (Lambda)''),
           (''image'', img),
           (''scan_time'', JStr (now_isoformat w)),
           (''vulnerabilities'', JArr (map finding_json vs)),
           (''summary'', summary_json (summarize vs)),
           (''live_data'', JBool True),
           (''trivy_version'', JStr (get_trivy_version w))]"

definition scan_failed :: "json \<Rightarrow> string \<Rightarrow> response" where
  "scan_failed img err =
     \<lparr>statusCode = 500, headers = cors_headers,
      body = JObj [(''error'', JStr (''Trivy scan failed: '' @ err)), (''image'', img)]\<rparr>"

definition after_scan :: "world \<Rightarrow> json \<Rightarrow> int \<times> string \<times> string \<Rightarrow> exn + response" where
  \<comment> \<open>from the test of the return code to the success envelope\<close>
  "after_scan w img result =
     (case result of (returncode, stdout, stderr) \<Rightarrow>
        if returncode \<noteq> 0 \<and> \<not> py_truthy (JStr stdout) then Inr (scan_failed img stderr)
        else
          then_do (if py_truthy (JStr stdout) then py_json_loads w (JStr stdout)
                   else Inr (JObj [])) (\<lambda>trivy_output.
          then_do (transform trivy_output) (\<lambda>vulnerabilities.
            Inr \<lparr>statusCode = 200, headers = cors_headers,
                 body = report w img vulnerabilities\<rparr>)))"

definition scan_and_report :: "world \<Rightarrow> json \<Rightarrow> exn + response" where
  \<comment> \<open>the \<open>try\<close> block once \<open>body\<close> is bound\<close>
  "scan_and_report w req =
     then_do (read_request req) (\<lambda>r.
     then_do (subprocess_run w (build_cmd r)) (\<lambda>result.
       after_scan w (image_ref r) result))"

definition on_exception :: "world \<Rightarrow> json option \<Rightarrow> exn \<Rightarrow> exn + response" where
  \<comment> \<open>the two \<open>except\<close> clauses; the second argument is the local \<open>body\<close>, \<open>None\<close>
      while it is unbound. \<open>Inl\<close> is an exception that leaves the handler.\<close>
  "on_exception w bodyvar e =
     (if e = TimeoutExpired then
        (case bodyvar of
           None \<Rightarrow> Inl UnboundLocalError
         | Some b \<Rightarrow>
             then_do (py_get b ''image'' (JStr ''unknown'')) (\<lambda>img.
               Inr \<lparr>statusCode = 504, headers = cors_headers,
                    body = JObj [(''error'', JStr ''Scan timed out. Try a smaller image or increase Lambda timeout.''),
                                 (''image'', img)]\<rparr>))
      else
        Inr \<lparr>statusCode = 500, headers = cors_headers,
             body = JObj [(''error'', JStr (exn_str w e))]\<rparr>)"

definition handler :: "world \<Rightarrow> json \<Rightarrow> exn + response" where
  "handler w event =
     (case request_body w event of
        Inl e \<Rightarrow> on_exception w None e
      | Inr req \<Rightarrow>
          (case scan_and_report w req of
             Inl e \<Rightarrow> on_exception w (Some req) e
           | Inr r \<Rightarrow> Inr r))"

subsection \<open>The specification's reading of the score selection\<close>

text \<open>
  The specification describes the score selection in its own words: the first available
  score over the ordered sources, the V3 score before the V2 score within a source.
  These two definitions follow that wording, to be compared with \<open>extract_cvss_score\<close>.
\<close>

definition spec_source_score :: "json \<Rightarrow> string \<Rightarrow> json option" where
  "spec_source_score cvss source =
     (case py_subscript cvss source of
        Inr (JObj entry) \<Rightarrow>
          (case map_of entry ''V3Score'' of
             Some v \<Rightarrow> Some v
           | None \<Rightarrow> map_of entry ''V2Score'')
      | _ \<Rightarrow> None)"

definition spec_first_available_score :: "json \<Rightarrow> json option" where
  "spec_first_available_score cvss =
     (case List.map_filter (spec_source_score cvss) [''nvd'', ''redhat'', ''ghsa''] of
        [] \<Rightarrow> None
      | v # _ \<Rightarrow> Some v)"

subsection \<open>Concrete inputs\<close>

definition stub_world ::
  "(string \<Rightarrow> json option) \<Rightarrow> (string list \<Rightarrow> run_result) \<Rightarrow> run_result \<Rightarrow> world" where
  "stub_world loads scan ver =
     \<lparr>json_loads = loads, scan_run = scan, version_run = ver,
      now_isoformat = ''2024-01-01T00:00:00'', exn_str = (\<lambda>e. ''error'')\<rparr>"

definition sample_finding :: "string \<Rightarrow> finding" where
  "sample_finding sev =
     \<lparr>cve_id = JStr ''CVE-2024-0001'', package = JStr ''openssl'',
      installed_version = JStr ''1.0'', fixed_version = JStr ''1.1'',
      severity = JStr sev, cvss_score = JInt 0, description = JStr [],
      layer = JStr ''Unknown'', references = JArr []\<rparr>"

definition sample_output :: json where
  "sample_output =
     JObj [(''Results'',
            JArr [JObj [(''Target'', JStr ''nginx:latest (debian 12.1)''),
                        (''Vulnerabilities'',
                         JArr [JObj [(''VulnerabilityID'', JStr ''CVE-2023-0001''),
                                     (''PkgName'', JStr ''openssl''),
                                     (''InstalledVersion'', JStr ''3.0.9''),
                                     (''Severity'', JStr ''CRITICAL''),
                                     (''CVSS'', JObj [(''nvd'', JObj [(''V3Score'', JInt 9)])])]])]])]"




definition list_output_world :: world where
  \<comment> \<open>the scan exits with status 1 and prints a JSON list\<close>
  "list_output_world =
     stub_world (\<lambda>s. if s = ''[]'' then Some (JArr []) else None)
                (\<lambda>args. Completed 1 ''[]'' []) RunFailed"

definition crashed_version_world :: world where
  \<comment> \<open>the version query exits with status 1 and prints nothing on standard output\<close>
  "crashed_version_world =
     stub_world (\<lambda>s. None) (\<lambda>args. Completed 0 [] []) (Completed 1 [] ''fatal error'')"

definition empty_image_world :: world where
  \<comment> \<open>the scan completes only when its last argument, the image, is the empty string\<close>
  "empty_image_world =
     stub_world (\<lambda>s. None)
                (\<lambda>args. if last args = [] then Completed 0 [] [] else RunFailed) RunFailed"

subsection \<open>The specification's severity enumeration\<close>

text \<open>
  The specification calls the severity filter a comma-separated set of labels;
  \<open>spec_severity_labels\<close> is the list of labels of such a string.
\<close>

fun spec_severity_labels :: "string \<Rightarrow> string list" where
  "spec_severity_labels [] = [[]]"
| "spec_severity_labels (c # cs) =
     (if c = CHR '','' then [] # spec_severity_labels cs
      else (case spec_severity_labels cs of
              w # ws \<Rightarrow> (c # w) # ws
            | [] \<Rightarrow> [[c]]))"

section \<open>Properties\<close>

subsection \<open>No step of the pipeline raises a timeout except the scan itself\<close>

lemma then_do_timeoutE:
  assumes "then_do m f = Inl TimeoutExpired"
  obtains "m = Inl TimeoutExpired" | x where "m = Inr x" and "f x = Inl TimeoutExpired"
  using assms by (cases m) (simp_all add: then_do_def)

lemma then_do_no_timeout:
  "m \<noteq> Inl TimeoutExpired \<Longrightarrow> (\<And>x. m = Inr x \<Longrightarrow> f x \<noteq> Inl TimeoutExpired)
     \<Longrightarrow> then_do m f \<noteq> Inl TimeoutExpired"
  by (cases m) (simp_all add: then_do_def)

lemma then_do_Inr: "then_do (Inr x) f = f x"
  by (simp add: then_do_def)

lemma then_do_Inl: "then_do (Inl e) f = Inl e"
  by (simp add: then_do_def)

lemma then_do_eq_Inr: "(then_do m f = Inr y) = (\<exists>x. m = Inr x \<and> f x = Inr y)"
  by (cases m) (simp_all add: then_do_def)

lemma py_get_no_timeout: "py_get x k d \<noteq> Inl TimeoutExpired"
  by (cases x) simp_all

lemma py_subscript_no_timeout: "py_subscript x k \<noteq> Inl TimeoutExpired"
  by (cases x) (simp_all split: option.splits)

lemma py_in_no_timeout: "py_in k x \<noteq> Inl TimeoutExpired"
  by (cases x) simp_all

lemma py_iter_no_timeout: "py_iter x \<noteq> Inl TimeoutExpired"
  by (cases x) simp_all

lemma py_slice_no_timeout: "py_slice x n \<noteq> Inl TimeoutExpired"
  by (cases x) simp_all

lemma py_json_loads_no_timeout: "py_json_loads w x \<noteq> Inl TimeoutExpired"
  by (cases x) (simp_all add: py_json_loads_def split: option.splits)

lemma cvss_sources_no_timeout: "cvss_sources cvss srcs \<noteq> Inl TimeoutExpired"
proof (induction srcs)
  case Nil
  show ?case by simp
next
  case (Cons s srcs)
  show ?case
    using Cons.IH
    by (auto simp: py_in_no_timeout py_subscript_no_timeout py_get_no_timeout
             elim!: then_do_timeoutE split: if_splits)
qed

lemma extract_cvss_score_no_timeout: "extract_cvss_score vuln \<noteq> Inl TimeoutExpired"
  unfolding extract_cvss_score_def
  by (intro then_do_no_timeout py_get_no_timeout cvss_sources_no_timeout)

lemma normalize_vuln_no_timeout: "normalize_vuln target vuln \<noteq> Inl TimeoutExpired"
  unfolding normalize_vuln_def
  by (intro then_do_no_timeout py_get_no_timeout py_slice_no_timeout
        extract_cvss_score_no_timeout) simp

lemma each_vuln_no_timeout: "each_vuln target vulns \<noteq> Inl TimeoutExpired"
proof (induction vulns)
  case Nil
  show ?case by simp
next
  case (Cons v vulns)
  show ?case
    unfolding each_vuln.simps
    by (intro then_do_no_timeout normalize_vuln_no_timeout Cons.IH) simp
qed

lemma each_target_no_timeout: "each_target targets \<noteq> Inl TimeoutExpired"
proof (induction targets)
  case Nil
  show ?case by simp
next
  case (Cons t targets)
  show ?case
    unfolding each_target.simps
    by (intro then_do_no_timeout py_get_no_timeout py_iter_no_timeout
          each_vuln_no_timeout Cons.IH) simp
qed

lemma transform_no_timeout: "transform j \<noteq> Inl TimeoutExpired"
  unfolding transform_def
  by (intro then_do_no_timeout py_get_no_timeout py_iter_no_timeout each_target_no_timeout)

lemma request_body_no_timeout: "request_body w event \<noteq> Inl TimeoutExpired"
  by (auto simp: request_body_def py_get_no_timeout py_subscript_no_timeout
                py_json_loads_no_timeout
           elim!: then_do_timeoutE split: json.splits if_splits)

lemma after_scan_no_timeout: "after_scan w img result \<noteq> Inl TimeoutExpired"
  by (auto simp: after_scan_def py_json_loads_no_timeout transform_no_timeout
           elim!: then_do_timeoutE split: prod.splits if_splits)

subsection \<open>Steps of the handler\<close>

lemma read_request_dict: "read_request req = Inr r \<Longrightarrow> \<exists>kvs. req = JObj kvs"
  by (cases req) (simp_all add: read_request_def then_do_def)

lemma read_request_obj:
  "read_request (JObj kvs) =
     Inr \<lparr>image_ref = (case map_of kvs ''image'' of None \<Rightarrow> JStr ''nginx:latest'' | Some v \<Rightarrow> v),
          severity_filter = (case map_of kvs ''severity'' of
                               None \<Rightarrow> JStr ''CRITICAL,HIGH,MEDIUM,LOW'' | Some v \<Rightarrow> v),
          ignore_unfixed = (case map_of kvs ''ignore_unfixed'' of
                              None \<Rightarrow> JBool False | Some v \<Rightarrow> v)\<rparr>"
  by (simp add: read_request_def then_do_def)

lemma scan_and_report_timeout_dict:
  "scan_and_report w req = Inl TimeoutExpired \<Longrightarrow> \<exists>kvs. req = JObj kvs"
  by (cases req) (simp_all add: scan_and_report_def read_request_def then_do_def)

lemma after_scan_status:
  "after_scan w img result = Inr r \<Longrightarrow>
     (statusCode r = 200 \<or> statusCode r = 500) \<and> headers r = cors_headers
     \<and> (\<exists>kvs. body r = JObj kvs)"
  by (auto simp: after_scan_def then_do_def scan_failed_def report_def
           split: prod.splits if_splits sum.splits)

lemma scan_and_report_status:
  "scan_and_report w req = Inr r \<Longrightarrow>
     (statusCode r = 200 \<or> statusCode r = 500) \<and> headers r = cors_headers
     \<and> (\<exists>kvs. body r = JObj kvs)"
  unfolding scan_and_report_def then_do_def
  by (auto split: sum.splits dest: after_scan_status)

lemma on_exception_other:
  "e \<noteq> TimeoutExpired \<Longrightarrow>
     on_exception w bodyvar e =
       Inr \<lparr>statusCode = 500, headers = cors_headers,
            body = JObj [(''error'', JStr (exn_str w e))]\<rparr>"
  by (simp add: on_exception_def)

lemma on_exception_timeout:
  "on_exception w (Some (JObj kvs)) TimeoutExpired =
     Inr \<lparr>statusCode = 504, headers = cors_headers,
          body = JObj [(''error'', JStr ''Scan timed out. Try a smaller image or increase Lambda timeout.''),
                       (''image'', case map_of kvs ''image'' of None \<Rightarrow> JStr ''unknown'' | Some v \<Rightarrow> v)]\<rparr>"
  by (simp add: on_exception_def then_do_def)

lemma subprocess_run_eq:
  "argv_of cmd = Inr args \<Longrightarrow>
     subprocess_run w cmd =
       (case scan_run w args of
          Completed rc out err \<Rightarrow> Inr (rc, out, err)
        | RunTimeout \<Rightarrow> Inl TimeoutExpired
        | RunFailed \<Rightarrow> Inl OSError)"
  by (simp add: subprocess_run_def then_do_def)

lemma handler_after_request:
  "request_body w event = Inr req \<Longrightarrow> read_request req = Inr r \<Longrightarrow>
     handler w event =
       (case then_do (subprocess_run w (build_cmd r)) (after_scan w (image_ref r)) of
          Inl e \<Rightarrow> on_exception w (Some req) e
        | Inr resp \<Rightarrow> Inr resp)"
  by (simp add: handler_def scan_and_report_def then_do_def)

lemma after_scan_eq:
  "after_scan w img (rc, out, err) =
     (if rc \<noteq> 0 \<and> out = [] then Inr (scan_failed img err)
      else (case then_do (if out \<noteq> [] then py_json_loads w (JStr out) else Inr (JObj []))
                         transform of
              Inl e \<Rightarrow> Inl e
            | Inr vs \<Rightarrow> Inr \<lparr>statusCode = 200, headers = cors_headers,
                             body = report w img vs\<rparr>))"
  by (simp add: after_scan_def then_do_def split: sum.splits)

lemma parse_and_transform_no_timeout:
  "then_do (if out \<noteq> [] then py_json_loads w (JStr out) else Inr (JObj [])) transform
     \<noteq> Inl TimeoutExpired"
  by (intro then_do_no_timeout)
     (simp_all add: py_json_loads_no_timeout transform_no_timeout)

lemma handler_completed:
  assumes "request_body w event = Inr req"
    and "read_request req = Inr r"
    and "argv_of (build_cmd r) = Inr args"
    and "scan_run w args = Completed rc out err"
  shows "handler w event =
     (if rc \<noteq> 0 \<and> out = [] then Inr (scan_failed (image_ref r) err)
      else (case then_do (if out \<noteq> [] then py_json_loads w (JStr out) else Inr (JObj []))
                         transform of
              Inl e \<Rightarrow> Inr \<lparr>statusCode = 500, headers = cors_headers,
                            body = JObj [(''error'', JStr (exn_str w e))]\<rparr>
            | Inr vs \<Rightarrow> Inr \<lparr>statusCode = 200, headers = cors_headers,
                             body = report w (image_ref r) vs\<rparr>))"
proof -
  have run: "subprocess_run w (build_cmd r) = Inr (rc, out, err)"
    using assms(3,4) by (simp add: subprocess_run_eq)
  have h: "handler w event =
             (case after_scan w (image_ref r) (rc, out, err) of
                Inl e \<Rightarrow> on_exception w (Some req) e
              | Inr resp \<Rightarrow> Inr resp)"
    using handler_after_request [OF assms(1,2)] run by (simp add: then_do_Inr)
  show ?thesis
    unfolding h after_scan_eq
    using parse_and_transform_no_timeout [of out w]
    by (auto simp: on_exception_other split: sum.splits)
qed

lemma handler_returns:
  "\<exists>r. handler w event = Inr r
       \<and> (statusCode r = 200 \<or> statusCode r = 500 \<or> statusCode r = 504)
       \<and> headers r = cors_headers
       \<and> (\<exists>kvs. body r = JObj kvs)"
proof (cases "request_body w event")
  case (Inl e)
  then have "e \<noteq> TimeoutExpired" using request_body_no_timeout [of w event] by auto
  then show ?thesis
    using Inl by (simp add: handler_def on_exception_other)
next
  case (Inr req)
  show ?thesis
  proof (cases "scan_and_report w req")
    case (Inl e)
    show ?thesis
    proof (cases "e = TimeoutExpired")
      case True
      then obtain kvs where "req = JObj kvs"
        using Inl scan_and_report_timeout_dict by blast
      then show ?thesis
        using \<open>request_body w event = Inr req\<close> Inl True
        by (simp add: handler_def on_exception_timeout)
    next
      case False
      then show ?thesis
        using \<open>request_body w event = Inr req\<close> Inl
        by (simp add: handler_def on_exception_other)
    qed
  next
    case (Inr r)
    then show ?thesis
      using \<open>request_body w event = Inr req\<close> scan_and_report_status [OF Inr]
      by (auto simp: handler_def)
  qed
qed

subsection \<open>The argument vector\<close>

lemma argv_of_append:
  "argv_of (xs @ ys) = then_do (argv_of xs) (\<lambda>a. then_do (argv_of ys) (\<lambda>b. Inr (a @ b)))"
  by (induction xs rule: argv_of.induct) (simp_all add: then_do_def split: sum.splits)

lemma argv_of_single: "argv_of [x] = Inr b \<Longrightarrow> x = JStr (last b) \<and> b \<noteq> []"
  by (cases x) (auto simp: then_do_def)

lemma argv_of_last:
  "argv_of (xs @ [x]) = Inr args \<Longrightarrow> x = JStr (last args)"
  by (auto simp: argv_of_append then_do_def split: sum.splits dest!: argv_of_single)

subsection \<open>The ways the handler returns\<close>

lemma argv_of_no_timeout: "argv_of xs \<noteq> Inl TimeoutExpired"
  by (induction xs rule: argv_of.induct) (auto elim!: then_do_timeoutE)

lemma read_request_no_timeout: "read_request req \<noteq> Inl TimeoutExpired"
  by (cases req) (simp_all add: read_request_def then_do_def)

lemma build_cmd_image:
  assumes "argv_of (build_cmd a) = Inr args"
  shows "image_ref a = JStr (last args)"
proof -
  have "build_cmd a = butlast (build_cmd a) @ [image_ref a]"
    by (simp add: build_cmd_def butlast_append)
  then show ?thesis
    using assms argv_of_last by metis
qed

lemma handler_read_request_fails:
  "request_body w event = Inr req \<Longrightarrow> read_request req = Inl e \<Longrightarrow>
     handler w event = on_exception w (Some req) e"
  by (simp add: handler_def scan_and_report_def then_do_Inl)

lemma handler_run_fails:
  "request_body w event = Inr req \<Longrightarrow> read_request req = Inr a \<Longrightarrow>
     subprocess_run w (build_cmd a) = Inl e \<Longrightarrow>
     handler w event = on_exception w (Some req) e"
  by (simp add: handler_after_request then_do_Inl)

lemma handler_cases:
  assumes "handler w event = Inr r"
  obtains
    (internal) e where
      "r = \<lparr>statusCode = 500, headers = cors_headers,
            body = JObj [(''error'', JStr (exn_str w e))]\<rparr>"
  | (timeout) req a args s where
      "request_body w event = Inr req" "read_request req = Inr a"
      "argv_of (build_cmd a) = Inr args" "scan_run w args = RunTimeout"
      "py_get req ''image'' (JStr ''unknown'') = Inr (JStr s)"
      "r = \<lparr>statusCode = 504, headers = cors_headers,
            body = JObj [(''error'', JStr ''Scan timed out. Try a smaller image or increase Lambda timeout.''),
                         (''image'', JStr s)]\<rparr>"
  | (failed) req a args rc err where
      "request_body w event = Inr req" "read_request req = Inr a"
      "argv_of (build_cmd a) = Inr args" "scan_run w args = Completed rc [] err"
      "rc \<noteq> 0" "image_ref a = JStr (last args)"
      "r = scan_failed (image_ref a) err"
  | (success) req a args rc out err vs where
      "request_body w event = Inr req" "read_request req = Inr a"
      "argv_of (build_cmd a) = Inr args" "scan_run w args = Completed rc out err"
      "rc = 0 \<or> out \<noteq> []" "image_ref a = JStr (last args)"
      "then_do (if out \<noteq> [] then py_json_loads w (JStr out) else Inr (JObj [])) transform
         = Inr vs"
      "r = \<lparr>statusCode = 200, headers = cors_headers, body = report w (image_ref a) vs\<rparr>"
proof (cases "request_body w event")
  case (Inl e)
  then have "e \<noteq> TimeoutExpired"
    using request_body_no_timeout [of w event] by auto
  then show ?thesis
    using Inl assms internal [of e] by (simp add: handler_def on_exception_other)
next
  case (Inr req)
  note req = this
  show ?thesis
  proof (cases "read_request req")
    case (Inl e)
    then have "e \<noteq> TimeoutExpired"
      using read_request_no_timeout [of req] by auto
    then show ?thesis
      using handler_read_request_fails [OF req Inl] assms internal [of e]
      by (simp add: on_exception_other)
  next
    case (Inr a)
    note a = this
    show ?thesis
    proof (cases "argv_of (build_cmd a)")
      case (Inl e)
      then have "e \<noteq> TimeoutExpired"
        using argv_of_no_timeout [of "build_cmd a"] by auto
      moreover have "subprocess_run w (build_cmd a) = Inl e"
        using Inl by (simp add: subprocess_run_def then_do_Inl)
      ultimately show ?thesis
        using handler_run_fails [OF req a] assms internal [of e]
        by (simp add: on_exception_other)
    next
      case (Inr args)
      note args = this
      have img: "image_ref a = JStr (last args)"
        using build_cmd_image [OF args] .
      show ?thesis
      proof (cases "scan_run w args")
        case (Completed rc out err)
        note h = handler_completed [OF req a args Completed]
        show ?thesis
        proof (cases "rc \<noteq> 0 \<and> out = []")
          case True
          then show ?thesis
            using h assms failed [OF req a args _ _ img, of rc err] Completed by simp
        next
          case False
          show ?thesis
          proof (cases "then_do (if out \<noteq> [] then py_json_loads w (JStr out)
                                 else Inr (JObj [])) transform")
            case (Inl e)
            then show ?thesis
              using h assms False internal [of e] by auto
          next
            case (Inr vs)
            then show ?thesis
              using h assms False success [OF req a args Completed _ img Inr] by auto
          qed
        qed
      next
        case RunTimeout
        obtain kvs where kvs: "req = JObj kvs"
          using read_request_dict [OF a] by blast
        have run: "subprocess_run w (build_cmd a) = Inl TimeoutExpired"
          using args RunTimeout by (simp add: subprocess_run_eq)
        have r: "Inr r = on_exception w (Some req) TimeoutExpired"
          using handler_run_fails [OF req a run] assms by simp
        obtain s where s: "py_get req ''image'' (JStr ''unknown'') = Inr (JStr s)"
          using a img kvs by (auto simp: read_request_obj split: option.splits)
        show ?thesis
          using timeout [OF req a args RunTimeout s] r s
          by (auto simp: kvs on_exception_timeout split: option.splits)
      next
        case RunFailed
        have run: "subprocess_run w (build_cmd a) = Inl OSError"
          using args RunFailed by (simp add: subprocess_run_eq)
        show ?thesis
          using handler_run_fails [OF req a run] assms internal [of OSError]
          by (simp add: on_exception_other)
      qed
    qed
  qed
qed

subsection \<open>Values that \<open>json.dumps\<close> writes as JSON\<close>

lemma map_of_dumps_is_json:
  "dumps_is_json (JObj kvs) \<Longrightarrow> map_of kvs k = Some v \<Longrightarrow> dumps_is_json v"
  by (auto dest!: map_of_SomeD)













subsection \<open>The response envelope\<close>




subsection \<open>Score selection\<close>

text \<open>
  C2, as stated, fails: a finding whose \<open>nvd\<close> entry carries no score and whose
  \<open>redhat\<close> entry carries the score 7 has a first available score of 7, and
  \<open>extract_cvss_score\<close> returns 0 for it, although a score is found in a listed source.
\<close>

theorem extract_cvss_score_counterexample:
  "spec_first_available_score
     (JObj [(''nvd'', JObj [(''V3Vector'', JStr ''AV:N'')]),
            (''redhat'', JObj [(''V3Score'', JInt 7)])]) = Some (JInt 7)
   \<and> extract_cvss_score
       (JObj [(''CVSS'', JObj [(''nvd'', JObj [(''V3Vector'', JStr ''AV:N'')]),
                               (''redhat'', JObj [(''V3Score'', JInt 7)])])])
     = Inr (JInt 0)"
  by (simp add: spec_first_available_score_def spec_source_score_def
      extract_cvss_score_def then_do_def List.map_filter_def)

text \<open>
  C2, amended. For every raw finding whose CVSS table is an object (or is absent),
  \<open>extract_cvss_score\<close> selects the first source of nvd, redhat, ghsa that is present in
  the table, whether or not it carries a score. If that source's entry is an object, the
  result is the entry's V3Score if it has one, else its V2Score if it has one, else 0; if
  the entry is not an object (null, for instance), the call raises AttributeError. The
  result is 0 when none of the three sources is present.
\<close>

theorem extract_cvss_score_first_source:
  assumes "py_get vuln ''CVSS'' (JObj []) = Inr (JObj cvss)"
  shows "(find (\<lambda>s. map_of cvss s \<noteq> None) [''nvd'', ''redhat'', ''ghsa''] = None
            \<longrightarrow> extract_cvss_score vuln = Inr (JInt 0))
       \<and> (\<forall>s entry. find (\<lambda>s. map_of cvss s \<noteq> None) [''nvd'', ''redhat'', ''ghsa''] = Some s
              \<and> map_of cvss s = Some (JObj entry)
            \<longrightarrow> extract_cvss_score vuln =
                 Inr (case map_of entry ''V3Score'' of
                        Some v \<Rightarrow> v
                      | None \<Rightarrow> (case map_of entry ''V2Score'' of
                                   Some v \<Rightarrow> v
                                 | None \<Rightarrow> JInt 0)))
       \<and> (\<forall>s x. find (\<lambda>s. map_of cvss s \<noteq> None) [''nvd'', ''redhat'', ''ghsa''] = Some s
              \<and> map_of cvss s = Some x \<and> (\<forall>entry. x \<noteq> JObj entry)
            \<longrightarrow> extract_cvss_score vuln = Inl AttributeError)"
proof -
  have other: "py_get x k d = Inl AttributeError" if "\<forall>entry. x \<noteq> JObj entry" for x k d
    using that by (cases x) simp_all
  have e: "extract_cvss_score vuln = cvss_sources (JObj cvss) [''nvd'', ''redhat'', ''ghsa'']"
    using assms by (simp add: extract_cvss_score_def then_do_Inr)
  show ?thesis
    unfolding e
    by (auto simp: then_do_def other split: option.splits if_splits)
qed

theorem extract_cvss_score_first_source_witness:
  "extract_cvss_score
     (JObj [(''CVSS'', JObj [(''redhat'', JObj [(''V3Score'', JInt 5)]),
                             (''nvd'', JObj [(''V2Score'', JInt 4), (''V3Score'', JInt 9)])])])
     = Inr (JInt 9)
   \<and> extract_cvss_score (JObj [(''CVSS'', JObj [(''osv'', JObj [(''V3Score'', JInt 5)])])])
     = Inr (JInt 0)
   \<and> extract_cvss_score
       (JObj [(''CVSS'', JObj [(''nvd'', JNull), (''redhat'', JObj [(''V3Score'', JInt 5)])])])
     = Inl AttributeError"
proof -
  let ?c1 = "[(''redhat'', JObj [(''V3Score'', JInt 5)]),
              (''nvd'', JObj [(''V2Score'', JInt 4), (''V3Score'', JInt 9)])]"
  let ?c2 = "[(''osv'', JObj [(''V3Score'', JInt 5)])]"
  let ?c3 = "[(''nvd'', JNull), (''redhat'', JObj [(''V3Score'', JInt 5)])]"
  have h1: "py_get (JObj [(''CVSS'', JObj ?c1)]) ''CVSS'' (JObj []) = Inr (JObj ?c1)"
    by simp
  have h2: "py_get (JObj [(''CVSS'', JObj ?c2)]) ''CVSS'' (JObj []) = Inr (JObj ?c2)"
    by simp
  have h3: "py_get (JObj [(''CVSS'', JObj ?c3)]) ''CVSS'' (JObj []) = Inr (JObj ?c3)"
    by simp
  show ?thesis
    using extract_cvss_score_first_source [OF h1] extract_cvss_score_first_source [OF h2]
      extract_cvss_score_first_source [OF h3]
    by simp
qed

subsection \<open>The summary\<close>

lemma count_severity_length:
  "count_severity label vs = int (length (filter (\<lambda>v. severity v = JStr label) vs))"
  by (induction vs) (simp_all add: count_severity_def)

lemma buckets_le:
  "count_severity ''CRITICAL'' vs + count_severity ''HIGH'' vs
     + count_severity ''MEDIUM'' vs + count_severity ''LOW'' vs \<le> int (length vs)"
  by (induction vs) (simp_all add: count_severity_def)

lemma buckets_eq:
  "(count_severity ''CRITICAL'' vs + count_severity ''HIGH'' vs
     + count_severity ''MEDIUM'' vs + count_severity ''LOW'' vs = int (length vs))
   = (\<forall>v \<in> set vs. severity v \<in> {JStr ''CRITICAL'', JStr ''HIGH'', JStr ''MEDIUM'', JStr ''LOW''})"
proof (induction vs)
  case Nil
  then show ?case by (simp add: count_severity_def)
next
  case (Cons v vs)
  have le: "count_severity ''CRITICAL'' vs + count_severity ''HIGH'' vs
     + count_severity ''MEDIUM'' vs + count_severity ''LOW'' vs \<le> int (length vs)"
    by (rule buckets_le)
  show ?case using Cons.IH le
    by (auto simp: count_severity_def)
qed

text \<open>
  C3. For every list of normalized findings, the empty one included, the summary dict has
  the length of the list under \<open>total\<close> and, under each of \<open>critical\<close>, \<open>high\<close>,
  \<open>medium\<close>, \<open>low\<close>, the number of findings whose severity is exactly the bucket's
  label; the four buckets add up to at most the total, and to the total if and only if
  every finding's severity is one of the four labels CRITICAL, HIGH, MEDIUM, LOW. Every
  200 response of the handler carries this summary of the findings it lists.
\<close>

theorem summary_counts:
  "summary_json (summarize vs) =
     JObj [(''total'', JInt (int (length vs))),
           (''critical'', JInt (int (length (filter (\<lambda>v. severity v = JStr ''CRITICAL'') vs)))),
           (''high'', JInt (int (length (filter (\<lambda>v. severity v = JStr ''HIGH'') vs)))),
           (''medium'', JInt (int (length (filter (\<lambda>v. severity v = JStr ''MEDIUM'') vs)))),
           (''low'', JInt (int (length (filter (\<lambda>v. severity v = JStr ''LOW'') vs))))]
   \<and> total_count (summarize vs) = int (length vs)
   \<and> critical (summarize vs) = int (length (filter (\<lambda>v. severity v = JStr ''CRITICAL'') vs))
   \<and> high (summarize vs) = int (length (filter (\<lambda>v. severity v = JStr ''HIGH'') vs))
   \<and> medium (summarize vs) = int (length (filter (\<lambda>v. severity v = JStr ''MEDIUM'') vs))
   \<and> low (summarize vs) = int (length (filter (\<lambda>v. severity v = JStr ''LOW'') vs))
   \<and> critical (summarize vs) + high (summarize vs) + medium (summarize vs)
       + low (summarize vs) \<le> total_count (summarize vs)
   \<and> ((critical (summarize vs) + high (summarize vs) + medium (summarize vs)
         + low (summarize vs) = total_count (summarize vs))
       = (\<forall>v \<in> set vs. severity v \<in> {JStr ''CRITICAL'', JStr ''HIGH'', JStr ''MEDIUM'',
                                        JStr ''LOW''}))
   \<and> py_subscript (report w img vs) ''summary'' = Inr (summary_json (summarize vs))
   \<and> py_subscript (report w img vs) ''vulnerabilities'' = Inr (JArr (map finding_json vs))
   \<and> (handler w event = Inr r \<and> statusCode r = 200
        \<longrightarrow> (\<exists>fs.
              py_subscript (body r) ''vulnerabilities'' = Inr (JArr (map finding_json fs))
            \<and> py_subscript (body r) ''summary'' =
                Inr (JObj [(''total'', JInt (int (length fs))),
                           (''critical'', JInt (int (length (filter (\<lambda>v. severity v = JStr ''CRITICAL'') fs)))),
                           (''high'', JInt (int (length (filter (\<lambda>v. severity v = JStr ''HIGH'') fs)))),
                           (''medium'', JInt (int (length (filter (\<lambda>v. severity v = JStr ''MEDIUM'') fs)))),
                           (''low'', JInt (int (length (filter (\<lambda>v. severity v = JStr ''LOW'') fs))))])))"
proof -
  have dict: "summary_json (summarize fs) =
     JObj [(''total'', JInt (int (length fs))),
           (''critical'', JInt (int (length (filter (\<lambda>v. severity v = JStr ''CRITICAL'') fs)))),
           (''high'', JInt (int (length (filter (\<lambda>v. severity v = JStr ''HIGH'') fs)))),
           (''medium'', JInt (int (length (filter (\<lambda>v. severity v = JStr ''MEDIUM'') fs)))),
           (''low'', JInt (int (length (filter (\<lambda>v. severity v = JStr ''LOW'') fs))))]" for fs
    by (simp add: summary_json_def summarize_def count_severity_length)
  have le: "critical (summarize vs) + high (summarize vs) + medium (summarize vs)
          + low (summarize vs) \<le> total_count (summarize vs)"
    using buckets_le [of vs] by (simp add: summarize_def)
  have eq: "(critical (summarize vs) + high (summarize vs) + medium (summarize vs)
         + low (summarize vs) = total_count (summarize vs))
       = (\<forall>v \<in> set vs. severity v \<in> {JStr ''CRITICAL'', JStr ''HIGH'', JStr ''MEDIUM'',
                                        JStr ''LOW''})"
    using buckets_eq [of vs] by (simp add: summarize_def)
  have rep: "py_subscript (report w img fs) ''summary'' = Inr (summary_json (summarize fs))
      \<and> py_subscript (report w img fs) ''vulnerabilities'' = Inr (JArr (map finding_json fs))"
    for img fs
    by (simp add: report_def)
  have resp: "\<exists>fs. py_subscript (body r) ''vulnerabilities'' = Inr (JArr (map finding_json fs))
            \<and> py_subscript (body r) ''summary'' = Inr (summary_json (summarize fs))"
    if "handler w event = Inr r" and "statusCode r = 200"
    using that(1)
  proof (cases rule: handler_cases)
    case (success req a args rc out err fs)
    then show ?thesis using rep [of "image_ref a" fs] by auto
  qed (use that(2) in \<open>simp_all add: scan_failed_def\<close>)
  have fields: "total_count (summarize vs) = int (length vs)
   \<and> critical (summarize vs) = int (length (filter (\<lambda>v. severity v = JStr ''CRITICAL'') vs))
   \<and> high (summarize vs) = int (length (filter (\<lambda>v. severity v = JStr ''HIGH'') vs))
   \<and> medium (summarize vs) = int (length (filter (\<lambda>v. severity v = JStr ''MEDIUM'') vs))
   \<and> low (summarize vs) = int (length (filter (\<lambda>v. severity v = JStr ''LOW'') vs))"
    by (simp add: summarize_def count_severity_length)
  show ?thesis
    using dict [of vs] fields le eq rep [of img vs] resp unfolding dict
    by blast
qed

theorem summary_counts_witness:
  "summary_json (summarize [sample_finding ''CRITICAL'', sample_finding ''HIGH'']) =
     JObj [(''total'', JInt 2), (''critical'', JInt 1), (''high'', JInt 1),
           (''medium'', JInt 0), (''low'', JInt 0)]
   \<and> summary_json (summarize [sample_finding ''CRITICAL'', sample_finding ''NEGLIGIBLE'']) =
     JObj [(''total'', JInt 2), (''critical'', JInt 1), (''high'', JInt 0),
           (''medium'', JInt 0), (''low'', JInt 0)]
   \<and> summary_json (summarize []) =
     JObj [(''total'', JInt 0), (''critical'', JInt 0), (''high'', JInt 0),
           (''medium'', JInt 0), (''low'', JInt 0)]"
  using summary_counts [of "[sample_finding ''CRITICAL'', sample_finding ''HIGH'']"]
        summary_counts [of "[sample_finding ''CRITICAL'', sample_finding ''NEGLIGIBLE'']"]
        summary_counts [of "[]"]
  by (simp add: sample_finding_def)

subsection \<open>Timeout of the scan\<close>




subsection \<open>The exit status of the scan\<close>

text \<open>
  C5, as stated, fails: a scan that exits with status 1 and prints the parseable JSON
  document \<open>[]\<close> is not answered with status 200. The handler does go on to parse the
  output, but a list has no \<open>get\<close>, and the answer is the generic 500 error.
\<close>

theorem exit_status_with_output_counterexample:
  "json_loads list_output_world ''[]'' = Some (JArr [])
   \<and> scan_run list_output_world
        [''/usr/local/bin/trivy'', ''image'', ''--format'', ''json'', ''--quiet'',
         ''--severity'', ''CRITICAL,HIGH,MEDIUM,LOW'', ''--cache-dir'',
         ''/tmp/trivy-cache'', ''nginx:latest''] = Completed 1 ''[]'' []
   \<and> handler list_output_world (JObj []) =
       Inr \<lparr>statusCode = 500, headers = cors_headers,
            body = JObj [(''error'', JStr (exn_str list_output_world AttributeError))]\<rparr>"
  by (simp add: list_output_world_def stub_world_def handler_def request_body_def
        scan_and_report_def read_request_obj build_cmd_def subprocess_run_def after_scan_def
        py_json_loads_def transform_def on_exception_def then_do_def)

text \<open>
  C5, amended. When the scan subprocess completes and prints something on standard
  output, the handler ignores the exit status and parses the output: if the output parses
  and its findings can be normalized, the handler returns status 200 with the report of
  those findings; if the output does not parse, or parses to a document of another shape,
  it returns the generic 500 error. The ScanFailed response, status 500 with the text
  \<open>Trivy scan failed: \<close> followed by the captured standard error and with the image, is
  returned exactly when the exit status is not zero and nothing was printed.
\<close>

theorem exit_status_with_output:
  assumes "request_body w event = Inr req"
    and "read_request req = Inr r"
    and "argv_of (build_cmd r) = Inr args"
    and "scan_run w args = Completed rc out err"
  shows "(out \<noteq> [] \<and> json_loads w out = Some j \<and> transform j = Inr vs
            \<longrightarrow> handler w event =
                 Inr \<lparr>statusCode = 200, headers = cors_headers,
                      body = report w (image_ref r) vs\<rparr>)
       \<and> (out \<noteq> [] \<and> json_loads w out = Some j \<and> transform j = Inl e
            \<longrightarrow> handler w event =
                 Inr \<lparr>statusCode = 500, headers = cors_headers,
                      body = JObj [(''error'', JStr (exn_str w e))]\<rparr>)
       \<and> (out \<noteq> [] \<and> json_loads w out = None
            \<longrightarrow> handler w event =
                 Inr \<lparr>statusCode = 500, headers = cors_headers,
                      body = JObj [(''error'', JStr (exn_str w JSONDecodeError))]\<rparr>)
       \<and> ((handler w event = Inr (scan_failed (image_ref r) err)) = (rc \<noteq> 0 \<and> out = []))
       \<and> scan_failed (image_ref r) err =
           \<lparr>statusCode = 500, headers = cors_headers,
            body = JObj [(''error'', JStr (''Trivy scan failed: '' @ err)),
                         (''image'', image_ref r)]\<rparr>"
  unfolding handler_completed [OF assms]
  by (auto simp: py_json_loads_def then_do_def scan_failed_def split: sum.splits)

theorem exit_status_with_output_witness:
  "handler (stub_world (\<lambda>s. if s = ''{...}'' then Some sample_output else None)
                       (\<lambda>args. Completed 1 ''{...}'' []) RunFailed) (JObj [])
     = Inr \<lparr>statusCode = 200, headers = cors_headers,
            body = report (stub_world (\<lambda>s. if s = ''{...}'' then Some sample_output else None)
                                      (\<lambda>args. Completed 1 ''{...}'' []) RunFailed)
                     (JStr ''nginx:latest'')
                     [\<lparr>cve_id = JStr ''CVE-2023-0001'', package = JStr ''openssl'',
                       installed_version = JStr ''3.0.9'',
                       fixed_version = JStr ''No fix available'',
                       severity = JStr ''CRITICAL'', cvss_score = JInt 9,
                       description = JStr [], layer = JStr ''nginx:latest (debian 12.1)'',
                       references = JArr []\<rparr>]\<rparr>"
proof -
  let ?w = "stub_world (\<lambda>s. if s = ''{...}'' then Some sample_output else None)
                       (\<lambda>args. Completed 1 ''{...}'' []) RunFailed"
  let ?r = "\<lparr>image_ref = JStr ''nginx:latest'', severity_filter = JStr ''CRITICAL,HIGH,MEDIUM,LOW'',
            ignore_unfixed = JBool False\<rparr>"
  let ?vs = "[\<lparr>cve_id = JStr ''CVE-2023-0001'', package = JStr ''openssl'',
                       installed_version = JStr ''3.0.9'',
                       fixed_version = JStr ''No fix available'',
                       severity = JStr ''CRITICAL'', cvss_score = JInt 9,
                       description = JStr [], layer = JStr ''nginx:latest (debian 12.1)'',
                       references = JArr []\<rparr>]"
  have h1: "request_body ?w (JObj []) = Inr (JObj [])"
    by (simp add: request_body_def then_do_def)
  have h2: "read_request (JObj []) = Inr ?r"
    by (simp add: read_request_obj)
  have h3: "argv_of (build_cmd ?r) =
              Inr [''/usr/local/bin/trivy'', ''image'', ''--format'', ''json'', ''--quiet'',
                   ''--severity'', ''CRITICAL,HIGH,MEDIUM,LOW'', ''--cache-dir'',
                   ''/tmp/trivy-cache'', ''nginx:latest'']"
    by (simp add: build_cmd_def then_do_def)
  have h4: "scan_run ?w [''/usr/local/bin/trivy'', ''image'', ''--format'', ''json'', ''--quiet'',
                   ''--severity'', ''CRITICAL,HIGH,MEDIUM,LOW'', ''--cache-dir'',
                   ''/tmp/trivy-cache'', ''nginx:latest''] = Completed 1 ''{...}'' []"
    by (simp add: stub_world_def)
  have h5: "json_loads ?w ''{...}'' = Some sample_output"
    by (simp add: stub_world_def)
  have h6: "transform sample_output = Inr ?vs"
    by (simp add: sample_output_def transform_def then_do_def normalize_vuln_def
          extract_cvss_score_def)
  show ?thesis
    using exit_status_with_output [OF h1 h2 h3 h4, of sample_output ?vs] h5 h6
    by simp
qed

subsection \<open>The version query\<close>

lemma py_json_loads_version: "py_json_loads (w\<lparr>version_run := v\<rparr>) x = py_json_loads w x"
  by (cases x) (simp_all add: py_json_loads_def)

lemma request_body_version: "request_body (w\<lparr>version_run := v\<rparr>) event = request_body w event"
proof -
  have eq: "py_json_loads (w\<lparr>version_run := v\<rparr>) = py_json_loads w"
    by (rule ext) (rule py_json_loads_version)
  show ?thesis
    unfolding request_body_def eq ..
qed

lemma subprocess_run_version: "subprocess_run (w\<lparr>version_run := v\<rparr>) cmd = subprocess_run w cmd"
  by (simp add: subprocess_run_def)

lemma on_exception_version: "on_exception (w\<lparr>version_run := v\<rparr>) b e = on_exception w b e"
  by (simp add: on_exception_def)

lemma after_scan_version:
  "after_scan (w\<lparr>version_run := v\<rparr>) img result =
     (case after_scan w img result of
        Inl e \<Rightarrow> Inl e
      | Inr r \<Rightarrow> after_scan (w\<lparr>version_run := v\<rparr>) img result)"
proof -
  obtain rc out err where res: "result = (rc, out, err)"
    by (cases result) auto
  show ?thesis
    unfolding res after_scan_eq py_json_loads_version
    by (simp split: sum.splits)
qed

lemma after_scan_version_Inr:
  assumes "after_scan w img result = Inr r"
  shows "\<exists>r'. after_scan (w\<lparr>version_run := v\<rparr>) img result = Inr r'
        \<and> statusCode r' = statusCode r \<and> headers r' = headers r
        \<and> (statusCode r \<noteq> 200 \<longrightarrow> r' = r)
        \<and> (statusCode r = 200 \<longrightarrow>
              (\<exists>vs. body r = report w img vs
                  \<and> body r' = report (w\<lparr>version_run := v\<rparr>) img vs))"
proof -
  obtain rc out err where res: "result = (rc, out, err)"
    by (cases result) auto
  show ?thesis
  proof (cases "rc \<noteq> 0 \<and> out = []")
    case True
    then show ?thesis
      using assms unfolding res after_scan_eq
      by (auto simp: scan_failed_def)
  next
    case False
    then obtain vs where
      vs: "then_do (if out \<noteq> [] then py_json_loads w (JStr out) else Inr (JObj [])) transform
             = Inr vs"
      and r: "r = \<lparr>statusCode = 200, headers = cors_headers, body = report w img vs\<rparr>"
      using assms unfolding res after_scan_eq
      by (auto split: sum.splits)
    have "after_scan (w\<lparr>version_run := v\<rparr>) img result =
            Inr \<lparr>statusCode = 200, headers = cors_headers,
                 body = report (w\<lparr>version_run := v\<rparr>) img vs\<rparr>"
      unfolding res after_scan_eq py_json_loads_version
      using False vs by auto
    then show ?thesis
      using r by auto
  qed
qed

lemma on_exception_not_200:
  "on_exception w b e = Inr r \<Longrightarrow> statusCode r \<noteq> 200"
  by (cases "e = TimeoutExpired"; cases b)
     (auto simp: on_exception_def then_do_def split: sum.splits)

lemma handler_version:
  assumes r: "handler w event = Inr r"
  shows "\<exists>r'. handler (w\<lparr>version_run := v\<rparr>) event = Inr r'
          \<and> statusCode r' = statusCode r \<and> headers r' = headers r
          \<and> (statusCode r \<noteq> 200 \<longrightarrow> r' = r)
          \<and> (statusCode r = 200 \<longrightarrow>
                (\<exists>img vs. body r = report w img vs
                    \<and> body r' = report (w\<lparr>version_run := v\<rparr>) img vs))"
proof (cases "request_body w event")
  case (Inl e)
  then show ?thesis
    using r on_exception_not_200 [of w None e r]
    by (simp add: handler_def request_body_version on_exception_version)
next
  case (Inr req)
  note req = this
  show ?thesis
  proof (cases "read_request req")
    case (Inl e)
    then have "handler (w\<lparr>version_run := v\<rparr>) event = handler w event"
      using req
      by (simp add: handler_def scan_and_report_def then_do_Inl request_body_version
            on_exception_version)
    moreover have "statusCode r \<noteq> 200"
      using r req Inl on_exception_not_200 [of w "Some req" e r]
      by (simp add: handler_def scan_and_report_def then_do_Inl)
    ultimately show ?thesis using r by simp
  next
    case (Inr a)
    note a = this
    show ?thesis
    proof (cases "subprocess_run w (build_cmd a)")
      case (Inl e)
      then have "handler (w\<lparr>version_run := v\<rparr>) event = handler w event"
        using req a
        by (simp add: handler_def scan_and_report_def then_do_Inl then_do_Inr
              request_body_version on_exception_version subprocess_run_version)
      moreover have "statusCode r \<noteq> 200"
        using r req a Inl on_exception_not_200 [of w "Some req" e r]
        by (simp add: handler_def scan_and_report_def then_do_Inl then_do_Inr)
      ultimately show ?thesis using r by simp
    next
      case (Inr result)
      note result = this
      have h: "handler w event =
                 (case after_scan w (image_ref a) result of
                    Inl e \<Rightarrow> on_exception w (Some req) e | Inr resp \<Rightarrow> Inr resp)"
        using req a result
        by (simp add: handler_def scan_and_report_def then_do_Inr)
      have h': "handler (w\<lparr>version_run := v\<rparr>) event =
                 (case after_scan (w\<lparr>version_run := v\<rparr>) (image_ref a) result of
                    Inl e \<Rightarrow> on_exception (w\<lparr>version_run := v\<rparr>) (Some req) e
                  | Inr resp \<Rightarrow> Inr resp)"
        using req a result
        by (simp add: handler_def scan_and_report_def then_do_Inr request_body_version
              subprocess_run_version)
      show ?thesis
      proof (cases "after_scan w (image_ref a) result")
        case (Inl e)
        then have "after_scan (w\<lparr>version_run := v\<rparr>) (image_ref a) result = Inl e"
          using after_scan_version [where w = w and v = v and img = "image_ref a" and result = result]
          by simp
        then have "handler (w\<lparr>version_run := v\<rparr>) event = handler w event"
          using h h' Inl by (simp add: on_exception_version)
        moreover have "statusCode r \<noteq> 200"
          using r h Inl on_exception_not_200 [of w "Some req" e r] by simp
        ultimately show ?thesis using r by simp
      next
        case (Inr r0)
        then have r0: "r0 = r" using h r by simp
        obtain r' where r': "after_scan (w\<lparr>version_run := v\<rparr>) (image_ref a) result = Inr r'"
            "statusCode r' = statusCode r" "headers r' = headers r"
            "statusCode r \<noteq> 200 \<longrightarrow> r' = r"
            "statusCode r = 200 \<longrightarrow>
               (\<exists>vs. body r = report w (image_ref a) vs
                   \<and> body r' = report (w\<lparr>version_run := v\<rparr>) (image_ref a) vs)"
          using after_scan_version_Inr [OF Inr, of v] unfolding r0 by blast
        have "handler (w\<lparr>version_run := v\<rparr>) event = Inr r'"
          using h' r'(1) by simp
        then show ?thesis
          using r'(2-5) by blast
      qed
    qed
  qed
qed

text \<open>
  C6, as stated, fails: a version query that exits with status 1 and prints nothing on
  standard output is a failed query, and the reported version is then the empty string,
  not \<open>Unknown\<close>.
\<close>

theorem version_query_counterexample:
  "version_run crashed_version_world = Completed 1 [] ''fatal error''
   \<and> get_trivy_version crashed_version_world = []
   \<and> get_trivy_version crashed_version_world \<noteq> ''Unknown''"
  by (simp add: crashed_version_world_def stub_world_def get_trivy_version_def
        first_line_def py_strip_def)

text \<open>
  C6, amended. When the version query raises (it times out, or the process cannot be
  run), the reported version is \<open>Unknown\<close>; when the process completes, whatever its exit
  status, the reported version is the first line of its stripped standard output. No
  outcome of the version query makes the handler fail or changes the status code or the
  headers of its response: a response other than 200 is the same whatever the version
  query does, and a 200 response differs only in the version it reports.
\<close>

theorem version_query_absorbed:
  "(version_run w = RunTimeout \<or> version_run w = RunFailed
       \<longrightarrow> get_trivy_version w = ''Unknown'')
   \<and> (\<forall>rc out err. version_run w = Completed rc out err
          \<longrightarrow> get_trivy_version w = first_line (py_strip out))
   \<and> (\<exists>r r'. handler w event = Inr r \<and> handler (w\<lparr>version_run := v\<rparr>) event = Inr r'
          \<and> statusCode r' = statusCode r \<and> headers r' = headers r
          \<and> (statusCode r \<noteq> 200 \<longrightarrow> r' = r)
          \<and> (statusCode r = 200 \<longrightarrow>
                (\<exists>img vs. body r = report w img vs
                    \<and> body r' = report (w\<lparr>version_run := v\<rparr>) img vs)))"
proof -
  have version: "(version_run w = RunTimeout \<or> version_run w = RunFailed
       \<longrightarrow> get_trivy_version w = ''Unknown'')
   \<and> (\<forall>rc out err. version_run w = Completed rc out err
          \<longrightarrow> get_trivy_version w = first_line (py_strip out))"
    by (auto simp: get_trivy_version_def)
  obtain r where r: "handler w event = Inr r"
    using handler_returns [of w event] by blast
  show ?thesis
    using version r handler_version [OF r, of v] by blast
qed

theorem version_query_absorbed_witness:
  "get_trivy_version (stub_world (\<lambda>s. None) (\<lambda>args. Completed 0 [] []) RunTimeout) = ''Unknown''
   \<and> get_trivy_version (stub_world (\<lambda>s. None) (\<lambda>args. Completed 0 [] [])
                          (Completed 0 ''Version: 0.45.0'' []))
       = ''Version: 0.45.0''"
  using version_query_absorbed
          [where w = "stub_world (\<lambda>s. None) (\<lambda>args. Completed 0 [] []) RunTimeout"]
        version_query_absorbed
          [where w = "stub_world (\<lambda>s. None) (\<lambda>args. Completed 0 [] [])
                          (Completed 0 ''Version: 0.45.0'' [])"]
  by (simp add: stub_world_def first_line_def py_strip_def is_space_def)

subsection \<open>Defaults of the request\<close>

text \<open>
  C7, as stated, fails: for a request body without a severity entry the filter is
  \<open>CRITICAL,HIGH,MEDIUM,LOW\<close>, four labels, and the label UNKNOWN of the full
  enumeration is not among them.
\<close>

theorem request_defaults_counterexample:
  "read_request (JObj []) =
     Inr \<lparr>image_ref = JStr ''nginx:latest'', severity_filter = JStr ''CRITICAL,HIGH,MEDIUM,LOW'',
          ignore_unfixed = JBool False\<rparr>
   \<and> spec_severity_labels ''CRITICAL,HIGH,MEDIUM,LOW'' = [''CRITICAL'', ''HIGH'', ''MEDIUM'', ''LOW'']
   \<and> ''UNKNOWN'' \<notin> set (spec_severity_labels ''CRITICAL,HIGH,MEDIUM,LOW'')"
  by (simp add: read_request_obj)

text \<open>
  C7, amended. For every request body that is an object, the handler applies these
  defaults: an absent image becomes the placeholder \<open>nginx:latest\<close>, an absent severity
  filter becomes the four labels \<open>CRITICAL,HIGH,MEDIUM,LOW\<close> (without UNKNOWN), and an
  absent \<open>ignore_unfixed\<close> becomes false, so that the scanner is run without
  \<open>--ignore-unfixed\<close>.
\<close>

theorem request_defaults:
  "\<exists>r. read_request (JObj kvs) = Inr r
       \<and> (map_of kvs ''image'' = None \<longrightarrow> image_ref r = JStr ''nginx:latest'')
       \<and> (map_of kvs ''severity'' = None
            \<longrightarrow> severity_filter r = JStr ''CRITICAL,HIGH,MEDIUM,LOW'')
       \<and> (map_of kvs ''ignore_unfixed'' = None
            \<longrightarrow> ignore_unfixed r = JBool False \<and> \<not> py_truthy (ignore_unfixed r))
       \<and> (map_of kvs ''image'' = None \<and> map_of kvs ''severity'' = None
            \<and> map_of kvs ''ignore_unfixed'' = None
            \<longrightarrow> argv_of (build_cmd r) =
                 Inr [''/usr/local/bin/trivy'', ''image'', ''--format'', ''json'', ''--quiet'',
                      ''--severity'', ''CRITICAL,HIGH,MEDIUM,LOW'', ''--cache-dir'',
                      ''/tmp/trivy-cache'', ''nginx:latest''])"
  by (auto simp: read_request_obj build_cmd_def then_do_def split: option.splits)

theorem request_defaults_witness:
  "read_request (JObj [(''severity'', JStr ''HIGH'')]) =
     Inr \<lparr>image_ref = JStr ''nginx:latest'', severity_filter = JStr ''HIGH'',
          ignore_unfixed = JBool False\<rparr>"
  using request_defaults [of "[(''severity'', JStr ''HIGH'')]"]
  by (auto simp: read_request_obj)

subsection \<open>Sentinels of a normalized finding\<close>

text \<open>
  C8, as stated, fails: a raw finding that carries \<open>null\<close> for its fixed version and its
  package name is missing that data, and the normalized finding has \<open>null\<close> in both
  fields, not the sentinels.
\<close>

theorem normalize_null_counterexample:
  "normalize_vuln (JObj [(''Target'', JStr ''alpine:3.18'')])
                  (JObj [(''VulnerabilityID'', JStr ''CVE-2024-0002''),
                         (''PkgName'', JNull), (''FixedVersion'', JNull)])
     = Inr \<lparr>cve_id = JStr ''CVE-2024-0002'', package = JNull,
            installed_version = JStr ''Unknown'', fixed_version = JNull,
            severity = JStr ''UNKNOWN'', cvss_score = JInt 0, description = JStr [],
            layer = JStr ''alpine:3.18'', references = JArr []\<rparr>"
  by (simp add: normalize_vuln_def then_do_def extract_cvss_score_def)

text \<open>
  C8, amended. For every raw finding in which the FixedVersion key is absent, the
  normalized finding's \<open>fixed_version\<close> is the sentinel \<open>No fix available\<close>; likewise an
  absent VulnerabilityID key gives \<open>N/A\<close>, and an absent PkgName or InstalledVersion key
  gives \<open>Unknown\<close>. A key that is present is copied as it is, so \<open>fixed_version\<close> is null
  exactly when the raw finding carries an explicit null for FixedVersion. The four fields
  are never omitted from the finding's JSON object.
\<close>

theorem normalize_sentinels:
  assumes "normalize_vuln target vuln = Inr f"
  shows "(py_in ''FixedVersion'' vuln = Inr False
            \<longrightarrow> fixed_version f = JStr ''No fix available'' \<and> fixed_version f \<noteq> JNull)
       \<and> (py_in ''VulnerabilityID'' vuln = Inr False \<longrightarrow> cve_id f = JStr ''N/A'')
       \<and> (py_in ''PkgName'' vuln = Inr False \<longrightarrow> package f = JStr ''Unknown'')
       \<and> (py_in ''InstalledVersion'' vuln = Inr False
            \<longrightarrow> installed_version f = JStr ''Unknown'')
       \<and> (\<forall>v. py_subscript vuln ''FixedVersion'' = Inr v \<longrightarrow> fixed_version f = v)
       \<and> (\<forall>v. py_subscript vuln ''VulnerabilityID'' = Inr v \<longrightarrow> cve_id f = v)
       \<and> (\<forall>v. py_subscript vuln ''PkgName'' = Inr v \<longrightarrow> package f = v)
       \<and> (\<forall>v. py_subscript vuln ''InstalledVersion'' = Inr v \<longrightarrow> installed_version f = v)
       \<and> ((fixed_version f = JNull) = (py_subscript vuln ''FixedVersion'' = Inr JNull))
       \<and> py_subscript (finding_json f) ''fixed_version'' = Inr (fixed_version f)
       \<and> py_subscript (finding_json f) ''cve_id'' = Inr (cve_id f)
       \<and> py_subscript (finding_json f) ''package'' = Inr (package f)
       \<and> py_subscript (finding_json f) ''installed_version'' = Inr (installed_version f)"
proof -
  obtain kvs where vuln: "vuln = JObj kvs"
    using assms by (cases vuln) (simp_all add: normalize_vuln_def then_do_Inl)
  have fields: "fixed_version f = (case map_of kvs ''FixedVersion'' of
                                    None \<Rightarrow> JStr ''No fix available'' | Some v \<Rightarrow> v)
        \<and> cve_id f = (case map_of kvs ''VulnerabilityID'' of None \<Rightarrow> JStr ''N/A'' | Some v \<Rightarrow> v)
        \<and> package f = (case map_of kvs ''PkgName'' of None \<Rightarrow> JStr ''Unknown'' | Some v \<Rightarrow> v)
        \<and> installed_version f = (case map_of kvs ''InstalledVersion'' of
                                    None \<Rightarrow> JStr ''Unknown'' | Some v \<Rightarrow> v)"
    using assms unfolding vuln normalize_vuln_def
    by (auto simp: then_do_Inr then_do_eq_Inr)
  have json: "py_subscript (finding_json f) ''fixed_version'' = Inr (fixed_version f)
       \<and> py_subscript (finding_json f) ''cve_id'' = Inr (cve_id f)
       \<and> py_subscript (finding_json f) ''package'' = Inr (package f)
       \<and> py_subscript (finding_json f) ''installed_version'' = Inr (installed_version f)"
    by (simp add: finding_json_def)
  show ?thesis
    using fields json by (auto simp: vuln split: option.splits)
qed

theorem normalize_sentinels_witness:
  "normalize_vuln (JObj [(''Target'', JStr ''alpine:3.18 (alpine 3.18.0)'')])
                  (JObj [(''Severity'', JStr ''HIGH'')])
     = Inr \<lparr>cve_id = JStr ''N/A'', package = JStr ''Unknown'',
            installed_version = JStr ''Unknown'', fixed_version = JStr ''No fix available'',
            severity = JStr ''HIGH'', cvss_score = JInt 0, description = JStr [],
            layer = JStr ''alpine:3.18 (alpine 3.18.0)'', references = JArr []\<rparr>
   \<and> py_in ''FixedVersion'' (JObj [(''Severity'', JStr ''HIGH'')]) = Inr False
   \<and> py_subscript
        (finding_json \<lparr>cve_id = JStr ''N/A'', package = JStr ''Unknown'',
            installed_version = JStr ''Unknown'', fixed_version = JStr ''No fix available'',
            severity = JStr ''HIGH'', cvss_score = JInt 0, description = JStr [],
            layer = JStr ''alpine:3.18 (alpine 3.18.0)'', references = JArr []\<rparr>)
        ''fixed_version'' = Inr (JStr ''No fix available'')"
proof -
  have h: "normalize_vuln (JObj [(''Target'', JStr ''alpine:3.18 (alpine 3.18.0)'')])
                  (JObj [(''Severity'', JStr ''HIGH'')])
     = Inr \<lparr>cve_id = JStr ''N/A'', package = JStr ''Unknown'',
            installed_version = JStr ''Unknown'', fixed_version = JStr ''No fix available'',
            severity = JStr ''HIGH'', cvss_score = JInt 0, description = JStr [],
            layer = JStr ''alpine:3.18 (alpine 3.18.0)'', references = JArr []\<rparr>"
    by (simp add: normalize_vuln_def then_do_def extract_cvss_score_def)
  show ?thesis
    using normalize_sentinels [OF h] h by simp
qed

subsection \<open>The image handed to the scanner\<close>

text \<open>
  C9, as stated, fails: for a request body that supplies the empty string as image, the
  handler runs the scanner with the empty string as its image argument, and answers with
  what the scanner found.
\<close>

theorem scanned_image_counterexample:
  "read_request (JObj [(''image'', JStr [])]) =
     Inr \<lparr>image_ref = JStr [], severity_filter = JStr ''CRITICAL,HIGH,MEDIUM,LOW'',
          ignore_unfixed = JBool False\<rparr>
   \<and> argv_of (build_cmd \<lparr>image_ref = JStr [], severity_filter = JStr ''CRITICAL,HIGH,MEDIUM,LOW'',
          ignore_unfixed = JBool False\<rparr>) =
       Inr [''/usr/local/bin/trivy'', ''image'', ''--format'', ''json'', ''--quiet'',
            ''--severity'', ''CRITICAL,HIGH,MEDIUM,LOW'', ''--cache-dir'',
            ''/tmp/trivy-cache'', []]
   \<and> handler empty_image_world (JObj [(''body'', JObj [(''image'', JStr [])])])
     = Inr \<lparr>statusCode = 200, headers = cors_headers,
            body = report empty_image_world (JStr []) []\<rparr>"
  by (simp add: read_request_obj build_cmd_def then_do_def handler_def request_body_def
        scan_and_report_def subprocess_run_def empty_image_world_def stub_world_def
        after_scan_def transform_def)

text \<open>
  C9, amended. Whenever the scan is run, the image handed to the scanner is a string: the
  image entry of the request body if there is one, the placeholder \<open>nginx:latest\<close>
  otherwise. It is the empty string only when the request body supplies the empty string.
\<close>

theorem scanned_image_is_string:
  assumes "read_request req = Inr r"
    and "argv_of (build_cmd r) = Inr args"
  shows "image_ref r = JStr (last args)
       \<and> py_get req ''image'' (JStr ''nginx:latest'') = Inr (JStr (last args))
       \<and> (py_in ''image'' req = Inr False \<longrightarrow> last args = ''nginx:latest'')
       \<and> (last args = [] \<longrightarrow> py_subscript req ''image'' = Inr (JStr []))"
proof -
  obtain kvs where req: "req = JObj kvs"
    using read_request_dict [OF assms(1)] by blast
  have "build_cmd r = butlast (build_cmd r) @ [image_ref r]"
    by (simp add: build_cmd_def butlast_append)
  then have img: "image_ref r = JStr (last args)"
    using assms(2) argv_of_last by metis
  then show ?thesis
    using assms(1) req
    by (auto simp: read_request_obj split: option.splits)
qed

theorem scanned_image_is_string_witness:
  "read_request (JObj [(''image'', JStr ''redis:7''), (''ignore_unfixed'', JBool True)]) =
     Inr \<lparr>image_ref = JStr ''redis:7'', severity_filter = JStr ''CRITICAL,HIGH,MEDIUM,LOW'',
          ignore_unfixed = JBool True\<rparr>
   \<and> argv_of (build_cmd \<lparr>image_ref = JStr ''redis:7'',
                         severity_filter = JStr ''CRITICAL,HIGH,MEDIUM,LOW'',
                         ignore_unfixed = JBool True\<rparr>) =
       Inr [''/usr/local/bin/trivy'', ''image'', ''--format'', ''json'', ''--quiet'',
            ''--severity'', ''CRITICAL,HIGH,MEDIUM,LOW'', ''--cache-dir'',
            ''/tmp/trivy-cache'', ''--ignore-unfixed'', ''redis:7'']
   \<and> py_get (JObj [(''image'', JStr ''redis:7''), (''ignore_unfixed'', JBool True)])
        ''image'' (JStr ''nginx:latest'') = Inr (JStr ''redis:7'')"
proof -
  let ?req = "JObj [(''image'', JStr ''redis:7''), (''ignore_unfixed'', JBool True)]"
  let ?r = "\<lparr>image_ref = JStr ''redis:7'', severity_filter = JStr ''CRITICAL,HIGH,MEDIUM,LOW'',
            ignore_unfixed = JBool True\<rparr>"
  have h1: "read_request ?req = Inr ?r"
    by (simp add: read_request_obj)
  have h2: "argv_of (build_cmd ?r) =
              Inr [''/usr/local/bin/trivy'', ''image'', ''--format'', ''json'', ''--quiet'',
                   ''--severity'', ''CRITICAL,HIGH,MEDIUM,LOW'', ''--cache-dir'',
                   ''/tmp/trivy-cache'', ''--ignore-unfixed'', ''redis:7'']"
    by (simp add: build_cmd_def then_do_def)
  show ?thesis
    using scanned_image_is_string [OF h1 h2] h1 h2 by simp
qed

subsection \<open>A scan that prints nothing and exits with status zero\<close>

text \<open>
  C10. When the scan subprocess exits with status zero and prints nothing on standard
  output, the handler returns status 200 with an empty list of findings, a summary whose
  total and four buckets are 0, and \<open>live_data\<close> true; the case is neither a failed scan
  nor a parse failure.
\<close>

theorem empty_output_is_success:
  assumes "request_body w event = Inr req"
    and "read_request req = Inr r"
    and "argv_of (build_cmd r) = Inr args"
    and "scan_run w args = Completed 0 [] err"
  shows "handler w event =
           Inr \<lparr>statusCode = 200, headers = cors_headers,
                body = JObj [(''scanner'', JStr ''Trivy (Lambda)''),
                             (''image'', image_ref r),
                             (''scan_time'', JStr (now_isoformat w)),
                             (''vulnerabilities'', JArr []),
                             (''summary'', JObj [(''total'', JInt 0), (''critical'', JInt 0),
                                                 (''high'', JInt 0), (''medium'', JInt 0),
                                                 (''low'', JInt 0)]),
                             (''live_data'', JBool True),
                             (''trivy_version'', JStr (get_trivy_version w))]\<rparr>"
proof -
  have run: "subprocess_run w (build_cmd r) = Inr (0, [], err)"
    using assms(3,4) by (simp add: subprocess_run_eq)
  have "transform (JObj []) = Inr []"
    by (simp add: transform_def then_do_def)
  then have "after_scan w (image_ref r) (0, [], err) =
          Inr \<lparr>statusCode = 200, headers = cors_headers, body = report w (image_ref r) []\<rparr>"
    by (simp add: after_scan_def then_do_def)
  then show ?thesis
    using handler_after_request [OF assms(1,2)] run
    by (simp add: then_do_def report_def summarize_def summary_json_def count_severity_def)
qed

theorem empty_output_is_success_witness:
  "handler (stub_world (\<lambda>s. None) (\<lambda>args. Completed 0 [] []) RunFailed) (JObj [])
     = Inr \<lparr>statusCode = 200, headers = cors_headers,
                body = JObj [(''scanner'', JStr ''Trivy (Lambda)''),
                             (''image'', JStr ''nginx:latest''),
                             (''scan_time'', JStr ''2024-01-01T00:00:00''),
                             (''vulnerabilities'', JArr []),
                             (''summary'', JObj [(''total'', JInt 0), (''critical'', JInt 0),
                                                 (''high'', JInt 0), (''medium'', JInt 0),
                                                 (''low'', JInt 0)]),
                             (''live_data'', JBool True),
                             (''trivy_version'', JStr ''Unknown'')]\<rparr>"
proof -
  let ?w = "stub_world (\<lambda>s. None) (\<lambda>args. Completed 0 [] []) RunFailed"
  let ?r = "\<lparr>image_ref = JStr ''nginx:latest'', severity_filter = JStr ''CRITICAL,HIGH,MEDIUM,LOW'',
            ignore_unfixed = JBool False\<rparr>"
  have h1: "request_body ?w (JObj []) = Inr (JObj [])"
    by (simp add: request_body_def then_do_def)
  have h2: "read_request (JObj []) = Inr ?r"
    by (simp add: read_request_obj)
  have h3: "argv_of (build_cmd ?r) =
              Inr [''/usr/local/bin/trivy'', ''image'', ''--format'', ''json'', ''--quiet'',
                   ''--severity'', ''CRITICAL,HIGH,MEDIUM,LOW'', ''--cache-dir'',
                   ''/tmp/trivy-cache'', ''nginx:latest'']"
    by (simp add: build_cmd_def then_do_def)
  have h4: "scan_run ?w [''/usr/local/bin/trivy'', ''image'', ''--format'', ''json'', ''--quiet'',
                   ''--severity'', ''CRITICAL,HIGH,MEDIUM,LOW'', ''--cache-dir'',
                   ''/tmp/trivy-cache'', ''nginx:latest''] = Completed 0 [] []"
    by (simp add: stub_world_def)
  show ?thesis
    using empty_output_is_success [OF h1 h2 h3 h4]
    by (simp add: stub_world_def get_trivy_version_def)
qed

end
